theory Spec2Isabelle
  imports Complex_Main "HOL-Library.Product_Lexorder" "HOL-Library.Multiset"
begin

section \<open>JavaScript numbers\<close>

text \<open>
  A JavaScript \<open>number\<close> that results from a division is a finite value, one of the two
  infinities, or NaN. Finite values are modelled by exact reals: the rounding of IEEE
  doubles is not part of the model, and neither is the sign of zero (a zero divisor is
  taken to be \<open>+0\<close>). Division by zero does not raise in JavaScript: it yields an
  infinity, or NaN for \<open>0 / 0\<close>.
\<close>

datatype jsnum = Fin real | PosInf | NegInf | NaN

definition js_div :: "real \<Rightarrow> real \<Rightarrow> jsnum" where
  "js_div a b =
     (if b \<noteq> 0 then Fin (a / b)
      else if a > 0 then PosInf
      else if a < 0 then NegInf
      else NaN)"

text \<open>Multiplication by a positive finite constant.\<close>

fun js_times_pos :: "jsnum \<Rightarrow> real \<Rightarrow> jsnum" where
  "js_times_pos (Fin x) c = Fin (x * c)"
| "js_times_pos PosInf c = PosInf"
| "js_times_pos NegInf c = NegInf"
| "js_times_pos NaN c = NaN"

text \<open>Comparison with a finite constant: every comparison with NaN is false.\<close>

fun js_gt :: "jsnum \<Rightarrow> real \<Rightarrow> bool" where
  "js_gt (Fin x) c = (x > c)"
| "js_gt PosInf c = True"
| "js_gt NegInf c = False"
| "js_gt NaN c = False"

fun js_ge :: "jsnum \<Rightarrow> real \<Rightarrow> bool" where
  "js_ge (Fin x) c = (x \<ge> c)"
| "js_ge PosInf c = True"
| "js_ge NegInf c = False"
| "js_ge NaN c = False"

section \<open>Impact classifier (impact-analyzer.ts)\<close>

datatype ImpactLevel = High | Medium | Low

text \<open>
  \<open>ImpactAnalyzer.calculateImpactLevel\<close>; the first argument is the field
  \<open>this.totalUsers\<close> set by the constructor (default 10000).
\<close>

definition calculateImpactLevel :: "real \<Rightarrow> real \<Rightarrow> real \<Rightarrow> bool \<Rightarrow> ImpactLevel" where
  "calculateImpactLevel totalUsers affectedUsers occurrences isFatal =
     (let userPercentage = js_times_pos (js_div affectedUsers totalUsers) 100 in
      if isFatal then
        (if affectedUsers > 100 \<or> js_gt userPercentage 5 then High
         else if affectedUsers \<ge> 10 \<or> js_ge userPercentage 1 then Medium
         else Low)
      else
        (if affectedUsers > 500 \<or> js_gt userPercentage 10 \<or> occurrences > 1000 then High
         else if affectedUsers \<ge> 50 \<or> js_ge userPercentage 2 \<or> occurrences \<ge> 100 then Medium
         else Low))"

definition defaultTotalUsers :: real where
  "defaultTotalUsers = 10000"

section \<open>Strings, arrays, maps and sets of the JavaScript runtime\<close>

text \<open>
  Strings are lists of characters; \<open>length\<close> and \<open>substring\<close> count characters, which
  agrees with JavaScript on ASCII text. A string is falsy exactly when it is empty.
\<close>

definition or_default :: "string \<Rightarrow> string \<Rightarrow> string" where
  \<comment> \<open>\<open>s || d\<close> on strings\<close>
  "or_default s d = (if s \<noteq> [] then s else d)"

fun str_includes :: "string \<Rightarrow> string \<Rightarrow> bool" where
  \<comment> \<open>\<open>String.prototype.includes\<close>: the second string occurs somewhere in the first\<close>
  "str_includes [] k = (k = [])"
| "str_includes (c # s) k = (take (length k) (c # s) = k \<or> str_includes s k)"

fun join :: "string \<Rightarrow> string list \<Rightarrow> string" where
  \<comment> \<open>\<open>Array.prototype.join\<close>\<close>
  "join sep [] = []"
| "join sep [x] = x"
| "join sep (x # y # ys) = x @ sep @ join sep (y # ys)"

definition last_segment :: "string \<Rightarrow> string" where
  \<comment> \<open>\<open>s.split('.').pop()\<close>: the text after the last dot\<close>
  "last_segment s = rev (takeWhile (\<lambda>c. c \<noteq> CHR ''.'') (rev s))"

fun show_nat :: "nat \<Rightarrow> string" where
  "show_nat n =
     (if n < 10 then [''0123456789'' ! n]
      else show_nat (n div 10) @ [''0123456789'' ! (n mod 10)])"

definition show_int :: "int \<Rightarrow> string" where
  \<comment> \<open>an integral number inside a template literal\<close>
  "show_int i = (if i < 0 then CHR ''-'' # show_nat (nat (- i)) else show_nat (nat i))"

definition Math_round :: "real \<Rightarrow> real" where
  \<comment> \<open>\<open>Math.round\<close>: the nearest integer, a tie going up\<close>
  "Math_round x = of_int \<lfloor>x + 1 / 2\<rfloor>"

definition toFixed :: "real \<Rightarrow> nat \<Rightarrow> string" where
  \<comment> \<open>\<open>Number.prototype.toFixed\<close> for magnitudes below \<open>10^21\<close>: the nearest multiple of
      \<open>10^-f\<close> (of the magnitude, a tie going up), written with exactly \<open>f\<close> decimals\<close>
  "toFixed x f =
     (let n = nat \<lfloor>\<bar>x\<bar> * 10 ^ f + 1 / 2\<rfloor>;
          m = show_nat n;
          m' = replicate (Suc f - length m) (CHR ''0'') @ m;
          k = length m' - f;
          body = (if f = 0 then m' else take k m' @ ''.'' @ drop k m')
      in if x < 0 then CHR ''-'' # body else body)"

text \<open>
  \<open>Array.prototype.sort\<close> with a comparator: the sort is stable, and \<open>cmp a b \<le> 0\<close>
  keeps \<open>a\<close> before \<open>b\<close>. It is modelled by insertion from the right: each element is
  placed before the first element of the already sorted rest that it does not exceed.
\<close>

fun insert_cmp :: "('a \<Rightarrow> 'a \<Rightarrow> int) \<Rightarrow> 'a \<Rightarrow> 'a list \<Rightarrow> 'a list" where
  "insert_cmp cmp x [] = [x]"
| "insert_cmp cmp x (y # ys) = (if cmp x y \<le> 0 then x # y # ys else y # insert_cmp cmp x ys)"

definition Array_sort :: "('a \<Rightarrow> 'a \<Rightarrow> int) \<Rightarrow> 'a list \<Rightarrow> 'a list" where
  "Array_sort cmp xs = foldr (insert_cmp cmp) xs []"

text \<open>
  A \<open>Map\<close> is an association list in insertion order with one entry per key: \<open>set\<close> on
  a key that is present replaces the value in place, \<open>set\<close> on a new key appends. A
  \<open>Set\<close> is a list without repetition in insertion order.
\<close>

fun Map_set :: "('k \<times> 'v) list \<Rightarrow> 'k \<Rightarrow> 'v \<Rightarrow> ('k \<times> 'v) list" where
  "Map_set [] k v = [(k, v)]"
| "Map_set ((k', v') # m) k v = (if k' = k then (k, v) # m else (k', v') # Map_set m k v)"

definition Map_get :: "('k \<times> 'v) list \<Rightarrow> 'k \<Rightarrow> 'v option" where
  "Map_get m k = map_of m k"

definition Set_add :: "'a list \<Rightarrow> 'a \<Rightarrow> 'a list" where
  "Set_add s x = (if x \<in> set s then s else s @ [x])"

text \<open>
  A JSON value, as \<open>JSON.parse\<close> returns it. The decoder itself belongs to the runtime:
  it is a parameter of the functions that call it, and returns the thrown error on the
  left.
\<close>

datatype json = JNull | JBool bool | JNumber real | JString string
  | JArray "json list" | JObject "(string \<times> json) list"

datatype js_error = SyntaxError | OtherError

definition try_catch :: "('e + 'a) \<Rightarrow> ('e \<Rightarrow> 'e + 'a) \<Rightarrow> 'e + 'a" where
  \<comment> \<open>\<open>try { body } catch (e) { handler }\<close>\<close>
  "try_catch body handler = (case body of Inl e \<Rightarrow> handler e | Inr v \<Rightarrow> Inr v)"

section \<open>Data model (types.ts)\<close>

text \<open>
  Field names follow the source; a prefix is added where two interfaces share a field
  name or the name is reserved. The two JSON texts of a row may be absent (\<open>None\<close>).
\<close>

record CrashSummary =
  cs_id :: string
  cs_timestamp :: string
  impact :: ImpactLevel
  affected_users :: int
  occurrences :: int
  cs_app_version :: string
  cs_platform :: string
  crash_message :: string
  cs_is_fatal :: bool
  title :: string

record StackFrame =
  sf_method :: string
  sf_class :: string
  sf_file :: string
  sf_line :: int
  sf_column :: "int option"
  sf_library :: "string option"

record StackTrace =
  st_exception_type :: string
  st_message :: string
  frames :: "StackFrame list"

record DeviceInfo =
  di_model :: string
  di_os_version :: string
  di_memory_available :: string
  di_storage_available :: string
  orientation :: string
  battery_level :: "real option"

record CrashContext =
  cc_app_version :: string
  cc_os_version :: string
  cc_device :: string
  cc_memory_available :: string
  cc_breadcrumbs :: json
  cc_custom_keys :: json
  cc_session_id :: string
  cc_user_id :: string

record CrashDetails =
  crash_summary :: CrashSummary
  cd_stack_trace :: StackTrace
  cd_context :: CrashContext
  device_info :: DeviceInfo
  suggested_fix_context :: string

record CrashTrend =
  ct_date :: string
  ct_crash_count :: int
  ct_affected_users :: int
  ct_crash_free_rate :: real

record DeviceStat =
  device :: string
  ds_crash_count :: nat
  percentage :: real

record TrendAnalysis =
  time_range :: string
  trends :: "CrashTrend list"
  top_crashes :: "CrashSummary list"
  most_affected_devices :: "DeviceStat list"
  crash_free_percentage :: real

record BigQueryCrashRow =
  crash_id :: string
  timestamp :: string
  event_name :: string
  platform :: string
  app_version :: string
  bundle_id :: string
  exception_type :: string
  exception_message :: string
  stack_trace :: string
  is_fatal :: bool
  device_model :: string
  os_version :: string
  memory_available :: int
  storage_available :: int
  user_id :: string
  session_id :: string
  custom_keys :: "string option"
  breadcrumbs :: "string option"

text \<open>
  The rows of the two pre-aggregated tables are untyped in the source (\<open>any[]\<close>). A
  per-day row carries a date, the number of crashed users and the crash-free rate; a
  statistics row carries a grouping key and a crash count (\<open>COUNT(*)\<close>, a natural
  number). The fields that the code defaults may be absent.
\<close>

record CrashFreeRow =
  cf_date :: string
  crashed_users :: "int option"
  crash_free_rate :: "real option"

record StatRow =
  group_key :: "string option"
  crash_count :: "nat option"

section \<open>Ranking and fix suggestions (impact-analyzer.ts)\<close>

fun impactWeight :: "ImpactLevel \<Rightarrow> int" where
  "impactWeight High = 3"
| "impactWeight Medium = 2"
| "impactWeight Low = 1"

definition compareCrashes :: "CrashSummary \<Rightarrow> CrashSummary \<Rightarrow> int" where
  \<comment> \<open>the comparator passed to \<open>sort\<close> by \<open>sortByImpactAndFrequency\<close>\<close>
  "compareCrashes a b =
     (let impactDiff = impactWeight (impact b) - impactWeight (impact a) in
      if impactDiff \<noteq> 0 then impactDiff else occurrences b - occurrences a)"

definition sortByImpactAndFrequency :: "CrashSummary list \<Rightarrow> CrashSummary list" where
  "sortByImpactAndFrequency crashes = Array_sort compareCrashes crashes"

definition commonExceptions :: "string list" where
  "commonExceptions =
     [''NullPointerException'', ''IndexOutOfBoundsException'', ''IllegalArgumentException'',
      ''ClassCastException'', ''ConcurrentModificationException'', ''OutOfMemoryError'',
      ''StackOverflowError'']"

definition isCommonException :: "string \<Rightarrow> bool" where
  "isCommonException exceptionType = list_ex (\<lambda>t. str_includes exceptionType t) commonExceptions"

definition advice :: "(string \<times> string) list" where
  "advice =
     [(''NullPointerException'',
         ''Check for null values before accessing object methods or properties''),
      (''IndexOutOfBoundsException'', ''Verify array/list bounds before accessing elements''),
      (''IllegalArgumentException'', ''Validate method parameters before use''),
      (''ClassCastException'', ''Verify object types before casting''),
      (''ConcurrentModificationException'',
         ''Use thread-safe collections or synchronization when modifying collections across threads''),
      (''OutOfMemoryError'',
         ''Review memory usage, optimize data structures, or increase heap size''),
      (''StackOverflowError'', ''Check for infinite recursion or deeply nested method calls'')]"

definition genericAdvice :: string where
  "genericAdvice = ''Review the stack trace to identify the root cause''"

definition getCommonExceptionAdvice :: "string \<Rightarrow> string" where
  \<comment> \<open>the loop over \<open>Object.entries(advice)\<close> returns at the first key contained in the type\<close>
  "getCommonExceptionAdvice exceptionType =
     (case find (\<lambda>(key, val). str_includes exceptionType key) advice of
        Some (key, val) \<Rightarrow> val
      | None \<Rightarrow> genericAdvice)"

definition fixSuggestionSentences ::
    "string \<Rightarrow> StackFrame list \<Rightarrow> string \<Rightarrow> string \<Rightarrow> string list" where
  \<comment> \<open>the array \<open>context\<close> that \<open>generateFixSuggestionContext\<close> fills by \<open>push\<close>\<close>
  "fixSuggestionSentences exceptionType stackFrames crashMessage appVersion =
     (let topFrame = (case stackFrames of [] \<Rightarrow> None | f # _ \<Rightarrow> Some f);
          c1 = [''The crash occurs in '' @
                  (case topFrame of None \<Rightarrow> ''unknown class''
                   | Some f \<Rightarrow> or_default (sf_class f) ''unknown class'')];
          c2 = (case topFrame of None \<Rightarrow> c1
                | Some f \<Rightarrow> if sf_method f \<noteq> [] then c1 @ [''in the '' @ sf_method f @ '' method'']
                            else c1);
          c3 = (case topFrame of None \<Rightarrow> c2
                | Some f \<Rightarrow> if sf_file f \<noteq> [] \<and> sf_line f \<noteq> 0
                            then c2 @ [''at '' @ sf_file f @ '':'' @ show_int (sf_line f)]
                            else c2);
          c4 = c3 @ [''when a '' @ exceptionType @ '' is thrown''];
          c5 = (if crashMessage \<noteq> [] then c4 @ [''with the message: '' @ [CHR 0x22] @ crashMessage @ [CHR 0x22]]
                else c4);
          c6 = (if isCommonException exceptionType then c5 @ [getCommonExceptionAdvice exceptionType]
                else c5);
          c7 = (if appVersion \<noteq> [] then c6 @ [''This occurs in app version '' @ appVersion]
                else c6)
      in c7)"

definition generateFixSuggestionContext ::
    "string \<Rightarrow> StackFrame list \<Rightarrow> string \<Rightarrow> string \<Rightarrow> string" where
  "generateFixSuggestionContext exceptionType stackFrames crashMessage appVersion =
     join ''. '' (fixSuggestionSentences exceptionType stackFrames crashMessage appVersion) @ ''.''"

section \<open>Crash processor (crash-processor.ts)\<close>

record CrashGroup =
  g_row :: BigQueryCrashRow
  g_count :: nat
  g_users :: "string list"

definition crashKey :: "BigQueryCrashRow \<Rightarrow> string" where
  "crashKey r = exception_type r @ ''-'' @ exception_message r @ ''-'' @ app_version r"

definition addCrashRow ::
    "BigQueryCrashRow \<Rightarrow> (string \<times> CrashGroup) list \<Rightarrow> (string \<times> CrashGroup) list" where
  \<comment> \<open>the body of \<open>rows.forEach\<close> in \<open>processCrashRows\<close>; an existing entry is
      mutated in place and keeps its position in the map\<close>
  "addCrashRow r crashMap =
     (let key = crashKey r in
      case Map_get crashMap key of
        Some existing \<Rightarrow>
          Map_set crashMap key
            (existing\<lparr>g_count := g_count existing + 1,
                      g_users := (if user_id r \<noteq> [] then Set_add (g_users existing) (user_id r)
                                  else g_users existing)\<rparr>)
      | None \<Rightarrow>
          Map_set crashMap key
            \<lparr>g_row = r, g_count = 1,
             g_users = (if user_id r \<noteq> [] then Set_add [] (user_id r) else [])\<rparr>)"

definition buildCrashMap :: "BigQueryCrashRow list \<Rightarrow> (string \<times> CrashGroup) list" where
  "buildCrashMap rows = fold addCrashRow rows []"

definition generateCrashTitle :: "string \<Rightarrow> string \<Rightarrow> string" where
  "generateCrashTitle exceptionType message =
     (let shortType = or_default (last_segment exceptionType) exceptionType;
          shortMessage =
            (if message \<noteq> [] then (if length message > 50 then take 47 message @ ''...'' else message)
             else [])
      in if shortMessage \<noteq> [] then shortType @ '': '' @ shortMessage else shortType)"

definition summarizeGroup :: "real \<Rightarrow> CrashGroup \<Rightarrow> CrashSummary" where
  \<comment> \<open>the function mapped over \<open>crashMap.values()\<close> in \<open>processCrashRows\<close>\<close>
  "summarizeGroup totalUsers g =
     (let affectedUsers = length (g_users g);
          impact = calculateImpactLevel totalUsers (real affectedUsers) (real (g_count g))
                     (is_fatal (g_row g))
      in \<lparr>cs_id = crash_id (g_row g),
          cs_timestamp = timestamp (g_row g),
          impact = impact,
          affected_users = int affectedUsers,
          occurrences = int (g_count g),
          cs_app_version = app_version (g_row g),
          cs_platform = platform (g_row g),
          crash_message = or_default (exception_message (g_row g)) ''Unknown error'',
          cs_is_fatal = is_fatal (g_row g),
          title = generateCrashTitle (exception_type (g_row g)) (exception_message (g_row g))\<rparr>)"

definition processCrashRows :: "real \<Rightarrow> BigQueryCrashRow list \<Rightarrow> CrashSummary list" where
  "processCrashRows totalUsers rows =
     sortByImpactAndFrequency (map (summarizeGroup totalUsers) (map snd (buildCrashMap rows)))"

definition formatMemory :: "int \<Rightarrow> string" where
  "formatMemory bytes =
     (if bytes = 0 then ''Unknown''
      else
        let gb = real_of_int bytes / (1024 * 1024 * 1024) in
        if gb \<ge> 1 then toFixed gb 1 @ ''GB''
        else
          let mb = real_of_int bytes / (1024 * 1024) in
          toFixed mb 0 @ ''MB'')"

definition extractDeviceInfo :: "BigQueryCrashRow \<Rightarrow> DeviceInfo" where
  "extractDeviceInfo r =
     \<lparr>di_model = or_default (device_model r) ''Unknown'',
      di_os_version = or_default (os_version r) ''Unknown'',
      di_memory_available = formatMemory (memory_available r),
      di_storage_available = formatMemory (storage_available r),
      orientation = ''Unknown'',
      battery_level = None\<rparr>"

definition truthy_text :: "string option \<Rightarrow> bool" where
  \<comment> \<open>a text that is present and not empty\<close>
  "truthy_text t = (case t of None \<Rightarrow> False | Some s \<Rightarrow> s \<noteq> [])"

definition extractCrashContext ::
    "(string \<Rightarrow> js_error + json) \<Rightarrow> BigQueryCrashRow \<Rightarrow> js_error + CrashContext" where
  "extractCrashContext JSON_parse r =
     (case try_catch
             (if truthy_text (breadcrumbs r) then JSON_parse (the (breadcrumbs r))
              else Inr (JArray []))
             (\<lambda>e. Inr (if truthy_text (breadcrumbs r) then JArray [JString (the (breadcrumbs r))]
                        else JArray []))
      of Inl e \<Rightarrow> Inl e
       | Inr breadcrumbs' \<Rightarrow>
     (case try_catch
             (if truthy_text (custom_keys r) then JSON_parse (the (custom_keys r))
              else Inr (JObject []))
             (\<lambda>e. Inr (JObject []))
      of Inl e \<Rightarrow> Inl e
       | Inr customKeys \<Rightarrow>
         Inr \<lparr>cc_app_version = or_default (app_version r) ''Unknown'',
              cc_os_version = or_default (os_version r) ''Unknown'',
              cc_device = or_default (device_model r) ''Unknown'',
              cc_memory_available = formatMemory (memory_available r),
              cc_breadcrumbs = breadcrumbs',
              cc_custom_keys = customKeys,
              cc_session_id = or_default (session_id r) ''Unknown'',
              cc_user_id = user_id r\<rparr>))"

text \<open>
  \<open>processCrashDetails\<close>. The stack-trace parser works by regular-expression matching,
  which is not embedded here: the parser is the parameter \<open>parseStackTrace\<close>, and every
  statement below holds whatever it returns.
\<close>

definition processCrashDetails ::
    "(string \<Rightarrow> StackTrace) \<Rightarrow> (string \<Rightarrow> js_error + json) \<Rightarrow> real \<Rightarrow> BigQueryCrashRow
       \<Rightarrow> js_error + CrashDetails" where
  "processCrashDetails parseStackTrace JSON_parse totalUsers r =
     (let stackTrace = parseStackTrace (stack_trace r);
          deviceInfo = extractDeviceInfo r
      in case extractCrashContext JSON_parse r of
           Inl e \<Rightarrow> Inl e
         | Inr context' \<Rightarrow>
             let affectedUsers = 1;
                 impact = calculateImpactLevel totalUsers affectedUsers 1 (is_fatal r);
                 crashSummary =
                   \<lparr>cs_id = crash_id r,
                    cs_timestamp = timestamp r,
                    impact = impact,
                    affected_users = 1,
                    occurrences = 1,
                    cs_app_version = app_version r,
                    cs_platform = platform r,
                    crash_message = or_default (exception_message r) ''Unknown error'',
                    cs_is_fatal = is_fatal r,
                    title = generateCrashTitle (exception_type r) (exception_message r)\<rparr>;
                 suggestedFixContext =
                   generateFixSuggestionContext (exception_type r) (frames stackTrace)
                     (exception_message r) (app_version r)
             in Inr \<lparr>crash_summary = crashSummary,
                     cd_stack_trace = stackTrace,
                     cd_context = context',
                     device_info = deviceInfo,
                     suggested_fix_context = suggestedFixContext\<rparr>)"

definition int_or :: "int option \<Rightarrow> int \<Rightarrow> int" where
  \<comment> \<open>\<open>x || d\<close> on a number that may be absent: an absent value and 0 are both falsy\<close>
  "int_or x d = (case x of None \<Rightarrow> d | Some v \<Rightarrow> if v = 0 then d else v)"

definition real_or :: "real option \<Rightarrow> real \<Rightarrow> real" where
  "real_or x d = (case x of None \<Rightarrow> d | Some v \<Rightarrow> if v = 0 then d else v)"

definition nat_or :: "nat option \<Rightarrow> nat \<Rightarrow> nat" where
  "nat_or x d = (case x of None \<Rightarrow> d | Some v \<Rightarrow> if v = 0 then d else v)"

definition statDevice :: "StatRow \<Rightarrow> string" where
  \<comment> \<open>\<open>stat.group_key || 'Unknown'\<close>\<close>
  "statDevice stat = (case group_key stat of None \<Rightarrow> ''Unknown'' | Some k \<Rightarrow> or_default k ''Unknown'')"

definition statCount :: "StatRow \<Rightarrow> nat" where
  \<comment> \<open>\<open>stat.crash_count || 0\<close>\<close>
  "statCount stat = nat_or (crash_count stat) 0"

definition addDeviceStat :: "StatRow \<Rightarrow> (string \<times> nat) list \<times> nat \<Rightarrow> (string \<times> nat) list \<times> nat" where
  \<comment> \<open>the body of \<open>crashStats.forEach\<close>; the state is \<open>(deviceMap, totalCrashes)\<close>\<close>
  "addDeviceStat stat st =
     (let deviceMap = fst st;
          totalCrashes = snd st;
          device = statDevice stat;
          count = statCount stat
      in (Map_set deviceMap device (nat_or (Map_get deviceMap device) 0 + count),
          totalCrashes + count))"

definition deviceEntry :: "nat \<Rightarrow> string \<times> nat \<Rightarrow> DeviceStat" where
  \<comment> \<open>the function mapped over \<open>deviceMap.entries()\<close>\<close>
  "deviceEntry totalCrashes e =
     (case e of (dev, cnt) \<Rightarrow>
        \<lparr>device = dev,
         ds_crash_count = cnt,
         percentage =
           (if totalCrashes > 0
            then Math_round ((real cnt / real totalCrashes) * 10000) / 100
            else 0)\<rparr>)"

definition aggregateDeviceStats :: "StatRow list \<Rightarrow> DeviceStat list" where
  "aggregateDeviceStats crashStats =
     (let st = fold addDeviceStat crashStats ([], 0);
          deviceMap = fst st;
          totalCrashes = snd st
      in take 10
           (Array_sort (\<lambda>a b. int (ds_crash_count b) - int (ds_crash_count a))
              (map (deviceEntry totalCrashes) deviceMap)))"

definition processTrendAnalysis ::
    "StatRow list \<Rightarrow> CrashFreeRow list \<Rightarrow> CrashSummary list \<Rightarrow> string \<Rightarrow> TrendAnalysis" where
  "processTrendAnalysis crashStats crashFreeCounts topCrashes timeRange =
     (let trends' =
            map (\<lambda>row. \<lparr>ct_date = cf_date row,
                        ct_crash_count = int_or (crashed_users row) 0,
                        ct_affected_users = int_or (crashed_users row) 0,
                        ct_crash_free_rate = real_or (crash_free_rate row) 100\<rparr>)
              crashFreeCounts;
          overallCrashFreeRate =
            (if length crashFreeCounts > 0
             then fold (\<lambda>row sum. sum + real_or (crash_free_rate row) 100) crashFreeCounts 0
                    / real (length crashFreeCounts)
             else 100);
          deviceStats = aggregateDeviceStats crashStats
      in \<lparr>time_range = timeRange,
          trends = trends',
          top_crashes = take 10 topCrashes,
          most_affected_devices = deviceStats,
          crash_free_percentage = Math_round (overallCrashFreeRate * 100) / 100\<rparr>)"

section \<open>Notions used to state the properties\<close>

text \<open>The rows of an input that carry a given grouping key, and their non-empty user ids.\<close>

definition group_rows :: "string \<Rightarrow> BigQueryCrashRow list \<Rightarrow> BigQueryCrashRow list" where
  "group_rows k rows = filter (\<lambda>r. crashKey r = k) rows"

definition group_user_ids :: "string \<Rightarrow> BigQueryCrashRow list \<Rightarrow> string set" where
  "group_user_ids k rows = {u. u \<noteq> [] \<and> (\<exists>r \<in> set rows. crashKey r = k \<and> user_id r = u)}"

text \<open>The sort key that the ranking comparator induces: impact first, then occurrences.\<close>

definition rankKey :: "CrashSummary \<Rightarrow> int \<times> int" where
  "rankKey s = (- impactWeight (impact s), - occurrences s)"



text \<open>Rounding to two decimals, a tie going up.\<close>

definition round2 :: "real \<Rightarrow> real" where
  "round2 x = of_int \<lfloor>x * 100 + 1 / 2\<rfloor> / 100"

text \<open>Rows and summaries for the worked examples; the fields not listed are fixed.\<close>

definition crashRow :: "string \<Rightarrow> string \<Rightarrow> string \<Rightarrow> string \<Rightarrow> bool \<Rightarrow> BigQueryCrashRow" where
  "crashRow t m v u f =
     \<lparr>crash_id = ''id-'' @ u, timestamp = ''2024-01-01'', event_name = ''crash'',
      platform = ''android'', app_version = v, bundle_id = ''app'', exception_type = t,
      exception_message = m, stack_trace = [], is_fatal = f, device_model = ''Pixel'',
      os_version = ''14'', memory_available = 1073741824, storage_available = 524288000,
      user_id = u, session_id = ''s'', custom_keys = Some ''{bad'', breadcrumbs = Some ''opened''\<rparr>"

definition fourRows :: "BigQueryCrashRow list" where
  "fourRows =
     [crashRow ''E'' ''m'' ''1.0'' ''u1'' True, crashRow ''E'' ''m'' ''1.0'' [] True,
      crashRow ''E'' ''m'' ''1.0'' ''u1'' True, crashRow ''E'' ''m'' ''1.0'' ''u2'' True]"

definition mkSummary :: "string \<Rightarrow> ImpactLevel \<Rightarrow> int \<Rightarrow> CrashSummary" where
  "mkSummary i l n =
     \<lparr>cs_id = i, cs_timestamp = [], impact = l, affected_users = 1, occurrences = n,
      cs_app_version = [], cs_platform = [], crash_message = [], cs_is_fatal = False, title = []\<rparr>"

definition sixDevices :: "StatRow list" where
  "sixDevices =
     map (\<lambda>k. \<lparr>group_key = Some k, crash_count = Some 1\<rparr>) [''a'', ''b'', ''c'', ''d'', ''e'', ''f'']"



definition fiveSummaries :: "CrashSummary list" where
  "fiveSummaries =
     [mkSummary ''a'' Low 7, mkSummary ''b'' High 2, mkSummary ''c'' Medium 5,
      mkSummary ''d'' High 2, mkSummary ''e'' High 9]"


definition failingParser :: "string \<Rightarrow> js_error + json" where
  "failingParser s = Inl SyntaxError"

definition emptyTrace :: "string \<Rightarrow> StackTrace" where
  "emptyTrace s = \<lparr>st_exception_type = ''Unknown'', st_message = ''No stack trace available'', frames = []\<rparr>"

section \<open>Properties of the impact classifier\<close>

text \<open>
  C2. With a positive baseline \<open>totalUsers\<close> and \<open>pct = affectedUsers / totalUsers * 100\<close>,
  the classification is exactly the two threshold ladders: fatal crashes are high when
  \<open>affectedUsers > 100\<close> or \<open>pct > 5\<close>, else medium when \<open>affectedUsers \<ge> 10\<close> or
  \<open>pct \<ge> 1\<close>, else low; non-fatal crashes are high when \<open>affectedUsers > 500\<close> or
  \<open>pct > 10\<close> or \<open>occurrences > 1000\<close>, else medium when \<open>affectedUsers \<ge> 50\<close> or
  \<open>pct \<ge> 2\<close> or \<open>occurrences \<ge> 100\<close>, else low.
\<close>

theorem calculateImpactLevel_ladders:
  assumes "totalUsers > 0"
  shows "calculateImpactLevel totalUsers affectedUsers occs isFatal =
     (let pct = affectedUsers / totalUsers * 100 in
      if isFatal then
        (if affectedUsers > 100 \<or> pct > 5 then High
         else if affectedUsers \<ge> 10 \<or> pct \<ge> 1 then Medium
         else Low)
      else
        (if affectedUsers > 500 \<or> pct > 10 \<or> occs > 1000 then High
         else if affectedUsers \<ge> 50 \<or> pct \<ge> 2 \<or> occs \<ge> 100 then Medium
         else Low))"
  using assms by (simp add: calculateImpactLevel_def js_div_def Let_def)

text \<open>The ladders at the default baseline: one input for each of the six outcomes.\<close>

theorem calculateImpactLevel_ladders_witness:
  "(0::real) < 10000
   \<and> calculateImpactLevel 10000 150 150 True = High
   \<and> calculateImpactLevel 10000 100 3 True = Medium
   \<and> calculateImpactLevel 10000 9 2000 True = Low
   \<and> calculateImpactLevel 10000 9 2000 False = High
   \<and> calculateImpactLevel 10000 200 5 False = Medium
   \<and> calculateImpactLevel 10000 9 99 False = Low"
proof -
  have h: "(0::real) < 10000" by simp
  from h calculateImpactLevel_ladders [OF h, of 150 150 True]
    calculateImpactLevel_ladders [OF h, of 100 3 True]
    calculateImpactLevel_ladders [OF h, of 9 2000 True]
    calculateImpactLevel_ladders [OF h, of 9 2000 False]
    calculateImpactLevel_ladders [OF h, of 200 5 False]
    calculateImpactLevel_ladders [OF h, of 9 99 False]
  show ?thesis by (simp add: Let_def)
qed

text \<open>
  C3. The specification asks that a zero or negative baseline be guarded, the percentage
  being taken as 0, so that only the absolute thresholds decide. The source divides
  without a guard. With \<open>totalUsers = 0\<close> and one affected user the percentage is \<open>+Infinity\<close>,
  which exceeds every threshold: a crash with one affected user and one occurrence is
  classified high, fatal or not, where the absolute thresholds alone give low. No error
  is raised.
\<close>

theorem calculateImpactLevel_zero_baseline:
  "calculateImpactLevel 0 1 1 True = High \<and> calculateImpactLevel 0 1 1 False = High"
  by (simp add: calculateImpactLevel_def js_div_def)

text \<open>
  A negative baseline does behave as the specification says, as long as the number of
  affected users is not negative: the percentage is then at most 0 and no percentage threshold
  is met.
\<close>

lemma calculateImpactLevel_negative_baseline:
  assumes "totalUsers < 0" "0 \<le> affectedUsers"
  shows "calculateImpactLevel totalUsers affectedUsers occs isFatal =
     (if isFatal then
        (if affectedUsers > 100 then High else if affectedUsers \<ge> 10 then Medium else Low)
      else
        (if affectedUsers > 500 \<or> occs > 1000 then High
         else if affectedUsers \<ge> 50 \<or> occs \<ge> 100 then Medium
         else Low))"
proof -
  from assms have "affectedUsers / totalUsers * 100 \<le> 0"
    by (simp add: divide_nonneg_neg mult_nonpos_nonneg)
  with assms show ?thesis
    by (auto simp: calculateImpactLevel_def js_div_def Let_def)
qed


section \<open>Maps, sets and sorting\<close>

lemma map_of_Map_set: "map_of (Map_set m k v) = (map_of m)(k \<mapsto> v)"
  by (induction m k v rule: Map_set.induct) (auto simp: fun_eq_iff)

lemma keys_Map_set: "set (map fst (Map_set m k v)) = insert k (set (map fst m))"
  by (induction m k v rule: Map_set.induct) auto

lemma distinct_Map_set: "distinct (map fst m) \<Longrightarrow> distinct (map fst (Map_set m k v))"
  by (induction m k v rule: Map_set.induct) (auto simp: keys_Map_set simp del: set_map)

lemma set_Set_add: "set (Set_add s x) = insert x (set s)"
  by (auto simp: Set_add_def)

lemma distinct_Set_add: "distinct s \<Longrightarrow> distinct (Set_add s x)"
  by (auto simp: Set_add_def)


text \<open>
  The sort returns a permutation of its input. When the comparator agrees with a linear
  order on keys, the sort is the stable insertion sort by that key.
\<close>

lemma mset_insert_cmp: "mset (insert_cmp cmp x ys) = add_mset x (mset ys)"
  by (induction ys) auto

lemma mset_Array_sort: "mset (Array_sort cmp xs) = mset xs"
  by (induction xs) (auto simp: Array_sort_def mset_insert_cmp)

lemma set_Array_sort: "set (Array_sort cmp xs) = set xs"
  using mset_Array_sort [of cmp xs] by (metis set_mset_mset)

lemma insert_cmp_insort_key:
  assumes "\<And>a b. (cmp a b \<le> 0) = (f a \<le> f b)"
  shows "insert_cmp cmp x ys = insort_key f x ys"
  by (induction ys) (simp_all add: assms)

lemma Array_sort_sort_key:
  assumes "\<And>a b. (cmp a b \<le> 0) = (f a \<le> f b)"
  shows "Array_sort cmp xs = sort_key f xs"
  by (induction xs) (simp_all add: Array_sort_def insert_cmp_insort_key [OF assms])


section \<open>Ranking of summaries\<close>

lemma compareCrashes_rankKey: "(compareCrashes a b \<le> 0) = (rankKey a \<le> rankKey b)"
  by (auto simp: compareCrashes_def rankKey_def Let_def less_eq_prod_def)

lemma sortByImpactAndFrequency_sort_key: "sortByImpactAndFrequency xs = sort_key rankKey xs"
  unfolding sortByImpactAndFrequency_def
  by (rule Array_sort_sort_key) (rule compareCrashes_rankKey)

lemma impactWeight_inj: "(impactWeight i = impactWeight j) = (i = j)"
  by (cases i; cases j) simp_all

lemma rankKey_eq: "(rankKey s = (- impactWeight i, - n)) = (impact s = i \<and> occurrences s = n)"
  by (auto simp: rankKey_def impactWeight_inj)

lemma rankKey_le:
  "rankKey a \<le> rankKey b \<Longrightarrow>
     (impact b = High \<longrightarrow> impact a = High) \<and> (impact a = Low \<longrightarrow> impact b = Low)
     \<and> (impact a = impact b \<longrightarrow> occurrences b \<le> occurrences a)"
  by (cases "impact a"; cases "impact b") (auto simp: rankKey_def less_eq_prod_def)


text \<open>
  C8. \<open>sortByImpactAndFrequency\<close> returns a permutation of its input, ordered by impact
  level with high before medium before low, summaries of equal impact being ordered by
  occurrence count descending; the sort is stable: the summaries of any given impact and
  occurrence count appear in their input order.
\<close>

theorem sortByImpactAndFrequency_stable_sort:
  "mset (sortByImpactAndFrequency xs) = mset xs
   \<and> sorted_wrt (\<lambda>a b. (impact b = High \<longrightarrow> impact a = High)
                      \<and> (impact a = Low \<longrightarrow> impact b = Low)
                      \<and> (impact a = impact b \<longrightarrow> occurrences b \<le> occurrences a))
        (sortByImpactAndFrequency xs)
   \<and> (\<forall>i n. filter (\<lambda>s. impact s = i \<and> occurrences s = n) (sortByImpactAndFrequency xs)
             = filter (\<lambda>s. impact s = i \<and> occurrences s = n) xs)"
proof (intro conjI allI)
  show "mset (sortByImpactAndFrequency xs) = mset xs"
    by (simp add: sortByImpactAndFrequency_def mset_Array_sort)
next
  have "sorted (map rankKey (sort_key rankKey xs))" by (rule sorted_sort_key)
  then have "sorted_wrt (\<lambda>a b. rankKey a \<le> rankKey b) (sortByImpactAndFrequency xs)"
    by (simp add: sorted_map sortByImpactAndFrequency_sort_key)
  then show "sorted_wrt (\<lambda>a b. (impact b = High \<longrightarrow> impact a = High)
                      \<and> (impact a = Low \<longrightarrow> impact b = Low)
                      \<and> (impact a = impact b \<longrightarrow> occurrences b \<le> occurrences a))
        (sortByImpactAndFrequency xs)"
    by (rule sorted_wrt_mono_rel [rotated]) (rule rankKey_le)
next
  fix i n
  have "filter (\<lambda>s. rankKey s = (- impactWeight i, - n)) (sort_key rankKey xs)
        = filter (\<lambda>s. rankKey s = (- impactWeight i, - n)) xs"
    by (rule sort_key_stable)
  then show "filter (\<lambda>s. impact s = i \<and> occurrences s = n) (sortByImpactAndFrequency xs)
             = filter (\<lambda>s. impact s = i \<and> occurrences s = n) xs"
    by (simp add: rankKey_eq sortByImpactAndFrequency_sort_key)
qed


text \<open>Five summaries, two of them with the same impact and occurrence count.\<close>

theorem sortByImpactAndFrequency_stable_sort_witness:
  "sortByImpactAndFrequency fiveSummaries
     = [mkSummary ''e'' High 9, mkSummary ''b'' High 2, mkSummary ''d'' High 2,
        mkSummary ''c'' Medium 5, mkSummary ''a'' Low 7]
   \<and> mset (sortByImpactAndFrequency fiveSummaries) = mset fiveSummaries
   \<and> filter (\<lambda>s. impact s = High \<and> occurrences s = 2) (sortByImpactAndFrequency fiveSummaries)
       = filter (\<lambda>s. impact s = High \<and> occurrences s = 2) fiveSummaries"
proof -
  have e: "sortByImpactAndFrequency fiveSummaries
     = [mkSummary ''e'' High 9, mkSummary ''b'' High 2, mkSummary ''d'' High 2,
        mkSummary ''c'' Medium 5, mkSummary ''a'' Low 7]" by code_simp
  from e sortByImpactAndFrequency_stable_sort [of fiveSummaries] show ?thesis by blast
qed


section \<open>Aggregation of crash rows\<close>

text \<open>
  After the loop, the map holds one entry for each key that occurs among the rows. The
  entry of a key has the first row with that key, counts the rows with that key, and
  its set of users holds the non-empty user ids of these rows.
\<close>

lemma buildCrashMap_snoc: "buildCrashMap (rows @ [r]) = addCrashRow r (buildCrashMap rows)"
  by (simp add: buildCrashMap_def)

lemma distinct_buildCrashMap: "distinct (map fst (buildCrashMap rows))"
proof (induction rows rule: rev_induct)
  case Nil
  show ?case by (simp add: buildCrashMap_def)
next
  case (snoc r rows)
  then show ?case
    by (simp add: buildCrashMap_snoc addCrashRow_def Let_def distinct_Map_set split: option.splits)
qed

lemma addCrashRow_other: "crashKey r \<noteq> k \<Longrightarrow> map_of (addCrashRow r m) k = map_of m k"
  by (simp add: addCrashRow_def Let_def Map_get_def map_of_Map_set split: option.splits)

lemma addCrashRow_new:
  "map_of m (crashKey r) = None \<Longrightarrow>
   map_of (addCrashRow r m) (crashKey r) =
     Some \<lparr>g_row = r, g_count = 1, g_users = (if user_id r \<noteq> [] then [user_id r] else [])\<rparr>"
  by (simp add: addCrashRow_def Let_def Map_get_def map_of_Map_set Set_add_def)

lemma addCrashRow_existing:
  "map_of m (crashKey r) = Some g \<Longrightarrow>
   map_of (addCrashRow r m) (crashKey r) =
     Some (g\<lparr>g_count := g_count g + 1,
             g_users := (if user_id r \<noteq> [] then Set_add (g_users g) (user_id r) else g_users g)\<rparr>)"
  by (simp add: addCrashRow_def Let_def Map_get_def map_of_Map_set)

lemma group_rows_snoc:
  "group_rows k (rows @ [r]) = (if crashKey r = k then group_rows k rows @ [r] else group_rows k rows)"
  by (simp add: group_rows_def)

lemma group_user_ids_snoc:
  "group_user_ids k (rows @ [r]) =
     (if crashKey r = k \<and> user_id r \<noteq> [] then insert (user_id r) (group_user_ids k rows)
      else group_user_ids k rows)"
  by (auto simp: group_user_ids_def)

lemma group_user_ids_empty: "group_rows k rows = [] \<Longrightarrow> group_user_ids k rows = {}"
  by (auto simp: group_user_ids_def group_rows_def filter_empty_conv)

lemma buildCrashMap_lookup:
  "(map_of (buildCrashMap rows) k = None \<longleftrightarrow> group_rows k rows = [])
   \<and> (\<forall>g. map_of (buildCrashMap rows) k = Some g \<longrightarrow>
          g_row g = hd (group_rows k rows) \<and> g_count g = length (group_rows k rows)
          \<and> set (g_users g) = group_user_ids k rows \<and> distinct (g_users g))"
proof (induction rows rule: rev_induct)
  case Nil
  show ?case by (simp add: buildCrashMap_def group_rows_def)
next
  case (snoc r rows)
  show ?case
  proof (cases "crashKey r = k")
    case False
    with snoc show ?thesis
      by (simp add: buildCrashMap_snoc addCrashRow_other group_rows_snoc group_user_ids_snoc)
  next
    case True
    show ?thesis
    proof (cases "map_of (buildCrashMap rows) k")
      case None
      with snoc have e: "group_rows k rows = []" by simp
      from None True show ?thesis
        by (simp add: buildCrashMap_snoc addCrashRow_new [of _ r, unfolded True] group_rows_snoc
              group_user_ids_snoc e group_user_ids_empty [OF e])
    next
      case (Some g)
      with snoc have ne: "group_rows k rows \<noteq> []" by auto
      from Some snoc have g: "g_row g = hd (group_rows k rows)" "g_count g = length (group_rows k rows)"
          "set (g_users g) = group_user_ids k rows" "distinct (g_users g)" by simp_all
      from Some True ne g show ?thesis
        by (simp add: buildCrashMap_snoc addCrashRow_existing [of _ r, unfolded True] group_rows_snoc
              group_user_ids_snoc set_Set_add distinct_Set_add)
    qed
  qed
qed

lemma card_group_user_ids: "card (group_user_ids k rows) \<le> length (group_rows k rows)"
proof -
  have "group_user_ids k rows \<subseteq> user_id ` set (group_rows k rows)"
    by (auto simp: group_user_ids_def group_rows_def)
  then have "card (group_user_ids k rows) \<le> card (user_id ` set (group_rows k rows))"
    by (intro card_mono) simp_all
  also have "\<dots> \<le> card (set (group_rows k rows))" by (rule card_image_le) simp
  also have "\<dots> \<le> length (group_rows k rows)" by (rule card_length)
  finally show ?thesis .
qed

lemma processCrashRows_elem:
  assumes "s \<in> set (processCrashRows totalUsers rows)"
  obtains k g where "map_of (buildCrashMap rows) k = Some g" "s = summarizeGroup totalUsers g"
proof -
  from assms obtain kg where kg: "kg \<in> set (buildCrashMap rows)" "s = summarizeGroup totalUsers (snd kg)"
    by (auto simp: processCrashRows_def sortByImpactAndFrequency_def set_Array_sort)
  then have "map_of (buildCrashMap rows) (fst kg) = Some (snd kg)"
    using distinct_buildCrashMap [of rows] by simp
  with kg that show thesis by blast
qed


text \<open>
  C1. Every summary returned by \<open>processCrashRows\<close> has \<open>affected_users \<le> occurrences\<close>:
  the summary belongs to a group key, its occurrence count is the number of rows with
  that key, and its affected-user count is the number of distinct non-empty user ids
  among these rows.
\<close>

theorem processCrashRows_affected_le_occurrences:
  assumes "s \<in> set (processCrashRows totalUsers rows)"
  shows "\<exists>k. occurrences s = int (length (group_rows k rows))
            \<and> affected_users s = int (card (group_user_ids k rows))
            \<and> affected_users s \<le> occurrences s"
proof -
  from assms obtain k g where g: "map_of (buildCrashMap rows) k = Some g"
    and s: "s = summarizeGroup totalUsers g" by (rule processCrashRows_elem)
  from g buildCrashMap_lookup [of rows k]
  have c: "g_count g = length (group_rows k rows)" and u: "set (g_users g) = group_user_ids k rows"
    and d: "distinct (g_users g)" by simp_all
  from d u have "length (g_users g) = card (group_user_ids k rows)"
    using distinct_card [of "g_users g"] by simp
  with c s card_group_user_ids [of k rows] show ?thesis
    by (intro exI [of _ k]) (simp add: summarizeGroup_def Let_def)
qed


text \<open>Four rows of one group: two distinct users, one row without a user id.\<close>

theorem processCrashRows_affected_le_occurrences_witness:
  "hd (processCrashRows 10000 fourRows) \<in> set (processCrashRows 10000 fourRows)
   \<and> affected_users (hd (processCrashRows 10000 fourRows)) = 2
   \<and> occurrences (hd (processCrashRows 10000 fourRows)) = 4
   \<and> (\<exists>k. occurrences (hd (processCrashRows 10000 fourRows)) = int (length (group_rows k fourRows))
           \<and> affected_users (hd (processCrashRows 10000 fourRows)) = int (card (group_user_ids k fourRows))
           \<and> affected_users (hd (processCrashRows 10000 fourRows))
               \<le> occurrences (hd (processCrashRows 10000 fourRows)))"
proof -
  have h: "hd (processCrashRows 10000 fourRows) \<in> set (processCrashRows 10000 fourRows)"
    by code_simp
  have a: "affected_users (hd (processCrashRows 10000 fourRows)) = 2" by code_simp
  have b: "occurrences (hd (processCrashRows 10000 fourRows)) = 4" by code_simp
  from h a b processCrashRows_affected_le_occurrences [OF h] show ?thesis by (intro conjI)
qed


text \<open>
  The grouping key joins the three strings with \<open>-\<close>. Equal triples give equal keys;
  equal keys give equal triples when the separator occurs neither in the exception types
  nor in the messages.
\<close>

lemma crashKey_cong:
  "exception_type r1 = exception_type r2 \<Longrightarrow> exception_message r1 = exception_message r2 \<Longrightarrow>
   app_version r1 = app_version r2 \<Longrightarrow> crashKey r1 = crashKey r2"
  by (simp add: crashKey_def)

lemma split_at_separator:
  "c \<notin> set a \<Longrightarrow> c \<notin> set a' \<Longrightarrow> a @ c # b = a' @ c # b' \<Longrightarrow> a = a' \<and> b = b'"
proof (induction a arbitrary: a')
  case Nil
  then show ?case by (cases a') auto
next
  case (Cons x a)
  then show ?case by (cases a') auto
qed

lemma crashKey_inj:
  assumes "CHR ''-'' \<notin> set (exception_type r1)" "CHR ''-'' \<notin> set (exception_message r1)"
    and "CHR ''-'' \<notin> set (exception_type r2)" "CHR ''-'' \<notin> set (exception_message r2)"
    and "crashKey r1 = crashKey r2"
  shows "exception_type r1 = exception_type r2 \<and> exception_message r1 = exception_message r2
         \<and> app_version r1 = app_version r2"
proof -
  from assms(5) have e: "exception_type r1 @ CHR ''-'' # (exception_message r1 @ CHR ''-'' # app_version r1)
      = exception_type r2 @ CHR ''-'' # (exception_message r2 @ CHR ''-'' # app_version r2)"
    by (simp add: crashKey_def)
  from split_at_separator [OF assms(1,3) e] have t: "exception_type r1 = exception_type r2"
    and e': "exception_message r1 @ CHR ''-'' # app_version r1
             = exception_message r2 @ CHR ''-'' # app_version r2"
    by simp_all
  from split_at_separator [OF assms(2,4) e'] t show ?thesis by simp
qed

lemma length_processCrashRows: "length (processCrashRows totalUsers rows) = card (crashKey ` set rows)"
proof -
  have "set (map fst (buildCrashMap rows)) = crashKey ` set rows"
  proof (rule set_eqI)
    fix k
    have "k \<in> set (map fst (buildCrashMap rows)) \<longleftrightarrow> map_of (buildCrashMap rows) k \<noteq> None"
      by (simp add: map_of_eq_None_iff)
    also have "\<dots> \<longleftrightarrow> group_rows k rows \<noteq> []" using buildCrashMap_lookup [of rows k] by simp
    also have "\<dots> \<longleftrightarrow> k \<in> crashKey ` set rows"
      by (auto simp: group_rows_def filter_empty_conv)
    finally show "k \<in> set (map fst (buildCrashMap rows)) \<longleftrightarrow> k \<in> crashKey ` set rows" .
  qed
  then have "card (crashKey ` set rows) = length (map fst (buildCrashMap rows))"
    using distinct_card [OF distinct_buildCrashMap [of rows]] by simp
  moreover have "length (processCrashRows totalUsers rows) = length (buildCrashMap rows)"
    using mset_Array_sort [of compareCrashes "map (summarizeGroup totalUsers) (map snd (buildCrashMap rows))"]
    by (metis processCrashRows_def sortByImpactAndFrequency_def length_map size_mset)
  ultimately show ?thesis by simp
qed


text \<open>
  C4, as stated, fails: the rows \<open>(A-B, C, 1)\<close> and \<open>(A, B-C, 1)\<close> differ in exception
  type and message, have the same key \<open>A-B-C-1\<close>, and are merged into one summary with
  two occurrences.
\<close>

theorem processCrashRows_merges_distinct_triples:
  "(exception_type (crashRow ''A-B'' ''C'' ''1'' ''u1'' True),
    exception_message (crashRow ''A-B'' ''C'' ''1'' ''u1'' True),
    app_version (crashRow ''A-B'' ''C'' ''1'' ''u1'' True))
   \<noteq> (exception_type (crashRow ''A'' ''B-C'' ''1'' ''u2'' True),
      exception_message (crashRow ''A'' ''B-C'' ''1'' ''u2'' True),
      app_version (crashRow ''A'' ''B-C'' ''1'' ''u2'' True))
   \<and> map occurrences
        (processCrashRows 10000
           [crashRow ''A-B'' ''C'' ''1'' ''u1'' True, crashRow ''A'' ''B-C'' ''1'' ''u2'' True]) = [2]"
  by code_simp


text \<open>
  C4, amended. Rows are accumulated into the same group exactly when their keys
  \<open>exception_type-exception_message-app_version\<close> are equal strings: the map has one
  entry for each key that occurs, the entry of a key counts exactly the rows with that
  key and keeps the first of them, and there are as many summaries as distinct keys.
  Rows with equal triples have equal keys. Rows with equal keys have equal triples
  provided that the separator \<open>-\<close> occurs in neither row's exception type or message.
\<close>

theorem processCrashRows_groups_by_key:
  "(Map_get (buildCrashMap rows) k = None \<longleftrightarrow> (\<forall>r \<in> set rows. crashKey r \<noteq> k))
   \<and> (\<forall>g. Map_get (buildCrashMap rows) k = Some g \<longrightarrow>
          g_count g = length (filter (\<lambda>r. crashKey r = k) rows)
          \<and> g_row g = hd (filter (\<lambda>r. crashKey r = k) rows))
   \<and> distinct (map fst (buildCrashMap rows))
   \<and> length (processCrashRows totalUsers rows) = card (crashKey ` set rows)
   \<and> (exception_type r1 = exception_type r2 \<and> exception_message r1 = exception_message r2
        \<and> app_version r1 = app_version r2 \<longrightarrow> crashKey r1 = crashKey r2)
   \<and> (CHR ''-'' \<notin> set (exception_type r1) \<union> set (exception_message r1)
                    \<union> set (exception_type r2) \<union> set (exception_message r2)
        \<and> crashKey r1 = crashKey r2 \<longrightarrow>
        exception_type r1 = exception_type r2 \<and> exception_message r1 = exception_message r2
        \<and> app_version r1 = app_version r2)"
proof (intro conjI)
  show "Map_get (buildCrashMap rows) k = None \<longleftrightarrow> (\<forall>r \<in> set rows. crashKey r \<noteq> k)"
    using buildCrashMap_lookup [of rows k]
    by (simp add: Map_get_def group_rows_def filter_empty_conv)
  show "\<forall>g. Map_get (buildCrashMap rows) k = Some g \<longrightarrow>
          g_count g = length (filter (\<lambda>r. crashKey r = k) rows)
          \<and> g_row g = hd (filter (\<lambda>r. crashKey r = k) rows)"
    using buildCrashMap_lookup [of rows k] by (simp add: Map_get_def group_rows_def)
  show "distinct (map fst (buildCrashMap rows))" by (rule distinct_buildCrashMap)
  show "length (processCrashRows totalUsers rows) = card (crashKey ` set rows)"
    by (rule length_processCrashRows)
  show "exception_type r1 = exception_type r2 \<and> exception_message r1 = exception_message r2
        \<and> app_version r1 = app_version r2 \<longrightarrow> crashKey r1 = crashKey r2"
    by (simp add: crashKey_def)
  show "CHR ''-'' \<notin> set (exception_type r1) \<union> set (exception_message r1)
                    \<union> set (exception_type r2) \<union> set (exception_message r2)
        \<and> crashKey r1 = crashKey r2 \<longrightarrow>
        exception_type r1 = exception_type r2 \<and> exception_message r1 = exception_message r2
        \<and> app_version r1 = app_version r2"
    using crashKey_inj [of r1 r2] by simp
qed


text \<open>The four rows of one group, and a row that differs in the app version only.\<close>

theorem processCrashRows_groups_by_key_witness:
  "(\<exists>g. Map_get (buildCrashMap fourRows) ''E-m-1.0'' = Some g \<and> g_count g = 4
         \<and> g_row g = crashRow ''E'' ''m'' ''1.0'' ''u1'' True)
   \<and> length (processCrashRows 10000 fourRows) = 1
   \<and> crashKey (crashRow ''E'' ''m'' ''1.0'' ''u1'' True) = crashKey (crashRow ''E'' ''m'' ''1.0'' ''u2'' True)
   \<and> crashKey (crashRow ''E'' ''m'' ''1.0'' ''u1'' True) \<noteq> crashKey (crashRow ''E'' ''m'' ''1.1'' ''u1'' True)"
proof -
  let ?r1 = "crashRow ''E'' ''m'' ''1.0'' ''u1'' True"
  let ?r2 = "crashRow ''E'' ''m'' ''1.0'' ''u2'' True"
  let ?r3 = "crashRow ''E'' ''m'' ''1.1'' ''u1'' True"
  have s: "Map_get (buildCrashMap fourRows) ''E-m-1.0'' \<noteq> None" by code_simp
  then obtain g where g: "Map_get (buildCrashMap fourRows) ''E-m-1.0'' = Some g" by blast
  have n: "length (filter (\<lambda>r. crashKey r = ''E-m-1.0'') fourRows) = 4" by code_simp
  have f: "hd (filter (\<lambda>r. crashKey r = ''E-m-1.0'') fourRows) = ?r1" by code_simp
  have c: "card (crashKey ` set fourRows) = 1" by code_simp
  have e: "exception_type ?r1 = exception_type ?r2 \<and> exception_message ?r1 = exception_message ?r2
           \<and> app_version ?r1 = app_version ?r2" by code_simp
  have d: "CHR ''-'' \<notin> set (exception_type ?r1) \<union> set (exception_message ?r1)
                    \<union> set (exception_type ?r3) \<union> set (exception_message ?r3)" by code_simp
  have v: "app_version ?r1 \<noteq> app_version ?r3" by code_simp
  note t1 = processCrashRows_groups_by_key [of fourRows "''E-m-1.0''" 10000 ?r1 ?r2]
  note t2 = processCrashRows_groups_by_key [of fourRows "''E-m-1.0''" 10000 ?r1 ?r3]
  from t1 g n f have 1: "\<exists>g. Map_get (buildCrashMap fourRows) ''E-m-1.0'' = Some g \<and> g_count g = 4
         \<and> g_row g = ?r1" by simp
  from t1 c have 2: "length (processCrashRows 10000 fourRows) = 1" by simp
  from t1 e have 3: "crashKey ?r1 = crashKey ?r2" by blast
  from t2 d v have 4: "crashKey ?r1 \<noteq> crashKey ?r3" by blast
  from 1 2 3 4 show ?thesis by (intro conjI)
qed


section \<open>Fix suggestions\<close>
















section \<open>Crash details\<close>

text \<open>
  C9. \<open>extractCrashContext\<close> always returns a context, whatever the decoder does. When
  the breadcrumbs text is present and fails to decode, the breadcrumbs are the list
  holding the raw text; when it is absent or empty they are the empty list. When the
  custom-keys text fails to decode, or is absent or empty, the custom keys are the empty
  mapping. A text that decodes yields the decoded value.
\<close>

theorem extractCrashContext_decodes_defensively:
  "\<exists>c. extractCrashContext JSON_parse r = Inr c
     \<and> (\<forall>s e. breadcrumbs r = Some s \<and> s \<noteq> [] \<and> JSON_parse s = Inl e \<longrightarrow>
            cc_breadcrumbs c = JArray [JString s])
     \<and> (\<forall>s j. breadcrumbs r = Some s \<and> s \<noteq> [] \<and> JSON_parse s = Inr j \<longrightarrow> cc_breadcrumbs c = j)
     \<and> (breadcrumbs r = None \<or> breadcrumbs r = Some [] \<longrightarrow> cc_breadcrumbs c = JArray [])
     \<and> (\<forall>s e. custom_keys r = Some s \<and> s \<noteq> [] \<and> JSON_parse s = Inl e \<longrightarrow>
            cc_custom_keys c = JObject [])
     \<and> (\<forall>s j. custom_keys r = Some s \<and> s \<noteq> [] \<and> JSON_parse s = Inr j \<longrightarrow> cc_custom_keys c = j)
     \<and> (custom_keys r = None \<or> custom_keys r = Some [] \<longrightarrow> cc_custom_keys c = JObject [])"
  by (cases "breadcrumbs r"; cases "custom_keys r")
     (auto simp: extractCrashContext_def try_catch_def truthy_text_def split: sum.splits)


text \<open>A row whose two JSON texts are present, with a decoder that always fails.\<close>

theorem extractCrashContext_decodes_defensively_witness:
  "\<exists>c. extractCrashContext failingParser (crashRow ''E'' ''m'' ''1.0'' ''u1'' True) = Inr c
     \<and> cc_breadcrumbs c = JArray [JString ''opened''] \<and> cc_custom_keys c = JObject []"
proof -
  let ?r = "crashRow ''E'' ''m'' ''1.0'' ''u1'' True"
  have b: "breadcrumbs ?r = Some ''opened'' \<and> ''opened'' \<noteq> [] \<and> failingParser ''opened'' = Inl SyntaxError"
    by (simp add: crashRow_def failingParser_def)
  have k: "custom_keys ?r = Some ''{bad'' \<and> ''{bad'' \<noteq> [] \<and> failingParser ''{bad'' = Inl SyntaxError"
    by (simp add: crashRow_def failingParser_def)
  from extractCrashContext_decodes_defensively [of failingParser ?r] b k show ?thesis by blast
qed


lemma extractCrashContext_total: "\<exists>c. extractCrashContext JSON_parse r = Inr c"
  by (simp add: extractCrashContext_def try_catch_def split: sum.splits)


text \<open>
  C10. With the default baseline of 10000 users, \<open>processCrashDetails\<close> returns details
  whose summary has impact low, one affected user and one occurrence, for every row,
  fatal or not.
\<close>

theorem processCrashDetails_impact_low:
  "\<exists>d. processCrashDetails parseStackTrace JSON_parse defaultTotalUsers r = Inr d
     \<and> impact (crash_summary d) = Low
     \<and> affected_users (crash_summary d) = 1 \<and> occurrences (crash_summary d) = 1"
proof -
  obtain c where "extractCrashContext JSON_parse r = Inr c"
    using extractCrashContext_total by blast
  then show ?thesis
    by (simp add: processCrashDetails_def Let_def defaultTotalUsers_def calculateImpactLevel_def
          js_div_def)
qed


theorem processCrashDetails_impact_low_witness:
  "\<exists>d. processCrashDetails emptyTrace failingParser defaultTotalUsers (crashRow ''E'' ''m'' ''1.0'' ''u1'' True) = Inr d
     \<and> impact (crash_summary d) = Low"
  using processCrashDetails_impact_low [of emptyTrace failingParser "crashRow ''E'' ''m'' ''1.0'' ''u1'' True"]
  by blast


section \<open>Trend analysis\<close>

text \<open>
  The overall crash-free percentage is the mean of the per-day rates after defaulting,
  rounded to two decimals, and 100 for no rows. The default \<open>rate || 100\<close> replaces every
  falsy rate: an absent one, and also a rate of 0.
\<close>

lemma fold_plus_sum_list:
  "fold (\<lambda>row acc. acc + f row) rows (a :: real) = a + sum_list (map f rows)"
  by (induction rows arbitrary: a) simp_all

lemma processTrendAnalysis_mean:
  "crash_free_percentage (processTrendAnalysis stats rows tops timeRange) =
     (if rows = [] then 100
      else round2 (sum_list (map (\<lambda>row. real_or (crash_free_rate row) 100) rows) / real (length rows)))"
  by (simp add: processTrendAnalysis_def Let_def fold_plus_sum_list round2_def Math_round_def)


text \<open>
  C5. The specification states that only an absent rate is defaulted, a day with rate 0
  contributing 0 to the mean. For a single day whose crash-free rate is 0 the source
  reports 100.
\<close>

theorem processTrendAnalysis_zero_rate:
  "crash_free_percentage
     (processTrendAnalysis []
        [\<lparr>cf_date = ''2024-01-01'', crashed_users = Some 7, crash_free_rate = Some 0\<rparr>] [] ''7d'') = 100"
  by (simp add: processTrendAnalysis_def real_or_def Math_round_def)





























text \<open>
  Six devices with one crash each have 16.67 percent each: the rounded percentages sum
  to 100.02, so the bound of 100 holds up to the rounding of each entry only.
\<close>

lemma aggregateDeviceStats_six:
  "sum_list (map percentage (aggregateDeviceStats sixDevices)) = 10002 / 100"
  by code_simp






end
